theory Spec2Isabelle
  imports Main
begin

section \<open>Error reporting and fsck negotiation of libbcachefs/error.h\<close>

text \<open>
  The header consists of statement and expression macros. Each macro is embedded as a
  function on an explicit state: what it prints and which external functions it calls are
  appended to a trace, the filesystem flags it sets are a field of the state, and the three
  ways a macro can leave (falling through with a value, \<^verbatim>\<open>goto fsck_err\<close>,
  \<^verbatim>\<open>BUG()\<close>) are the constructors of a result type. A format string together with
  its variadic arguments is one already formatted \<open>string\<close>; the literals the macros
  paste to it are appended as they are in the source.
\<close>

subsection \<open>Enumerations and structures\<close>

text \<open>The anonymous enum of pass results, lines 90-96.\<close>

definition BCH_FSCK_OK :: int where
  "BCH_FSCK_OK = 0"

definition BCH_FSCK_ERRORS_NOT_FIXED :: int where
  "BCH_FSCK_ERRORS_NOT_FIXED = 1"

definition BCH_FSCK_REPAIR_UNIMPLEMENTED :: int where
  "BCH_FSCK_REPAIR_UNIMPLEMENTED = 2"

definition BCH_FSCK_REPAIR_IMPOSSIBLE :: int where
  "BCH_FSCK_REPAIR_IMPOSSIBLE = 3"

definition BCH_FSCK_UNKNOWN_VERSION :: int where
  "BCH_FSCK_UNKNOWN_VERSION = 4"

text \<open>\<^verbatim>\<open>enum fsck_err_opts\<close>, lines 102-106, and the integer value of each enumerator.\<close>

datatype fsck_err_opts = FSCK_ERR_NO | FSCK_ERR_YES | FSCK_ERR_ASK

fun fsck_err_opts_val :: "fsck_err_opts \<Rightarrow> int" where
  "fsck_err_opts_val FSCK_ERR_NO = 0"
| "fsck_err_opts_val FSCK_ERR_YES = 1"
| "fsck_err_opts_val FSCK_ERR_ASK = 2"

text \<open>
  \<^verbatim>\<open>struct bch_fs\<close> and \<^verbatim>\<open>struct bch_dev\<close> are only forward declared in the
  header; the records hold the members the macros touch: \<^verbatim>\<open>c->opts.fix_errors\<close>,
  \<^verbatim>\<open>c->flags\<close> (a bitmap, kept as the set of the bit numbers that are set),
  \<^verbatim>\<open>ca->name\<close> and \<^verbatim>\<open>ca->fs\<close> (a pointer, kept as an address).
\<close>

type_synonym fs_ptr = nat

record bch_opts =
  fix_errors :: fsck_err_opts

record bch_fs =
  opts :: bch_opts
  flags :: "nat set"

record bch_dev =
  name :: string
  fs :: fs_ptr

subsection \<open>Observable effects\<close>

text \<open>
  \<open>Bch_err t\<close>: \<^verbatim>\<open>bch_err(x, t)\<close>, one line at error level (the first argument only
  selects the prefix of the line, which is left out). \<open>Printf t\<close>: \<^verbatim>\<open>printf(t)\<close>.
  \<open>Printk_err t\<close>: a \<^verbatim>\<open>printk(KERN_ERR bch2_fmt(fs, t))\<close> that passed the rate limiter.
  \<open>Ask_yn\<close>: one call of \<^verbatim>\<open>ask_yn()\<close>. The remaining events are calls of the
  functions the header declares but does not define, with their argument.
\<close>

datatype event =
    Bch_err string
  | Printf string
  | Printk_err string
  | Ask_yn
  | Inconsistent_error fs_ptr
  | Fatal_error fs_ptr
  | Nonfatal_io_error bch_dev

text \<open>
  The state a macro expansion works on: the filesystem \<^verbatim>\<open>*c\<close>, the local variable
  \<^verbatim>\<open>ret\<close> of the enclosing function (assigned by \<^verbatim>\<open>__fsck_err\<close>), the trace
  (oldest event first), the number of answers \<^verbatim>\<open>ask_yn\<close> has read and the number of
  times the rate limited call site has been reached.
\<close>

record sys =
  cfs :: bch_fs
  ret :: int
  out :: "event list"
  asked :: nat
  limited :: nat

text \<open>
  What the header takes from its surroundings: whether \<^verbatim>\<open>__KERNEL__\<close> is defined, the
  answers of the operator in the order \<^verbatim>\<open>ask_yn\<close> reads them, the verdict of the rate
  limiter of \<^verbatim>\<open>printk_ratelimited\<close> on each arrival at the call site, and the bit number
  \<^verbatim>\<open>BCH_FS_FSCK_FIXED_ERRORS\<close>, an enumerator defined outside the header.
\<close>

record env =
  kernel :: bool
  answers :: "nat \<Rightarrow> bool"
  ratelimit :: "nat \<Rightarrow> bool"
  BCH_FS_FSCK_FIXED_ERRORS :: nat

text \<open>How control leaves a macro expansion.\<close>

datatype 'a ctl = Value 'a | Goto_fsck_err | Halted

subsection \<open>Primitives used by the macros\<close>

definition bch_err :: "string \<Rightarrow> sys \<Rightarrow> sys" where
  "bch_err t s = s\<lparr>out := out s @ [Bch_err t]\<rparr>"

definition printf :: "string \<Rightarrow> sys \<Rightarrow> sys" where
  "printf t s = s\<lparr>out := out s @ [Printf t]\<rparr>"

definition ask_yn :: "env \<Rightarrow> sys \<Rightarrow> bool \<times> sys" where
  "ask_yn e s = (answers e (asked s), s\<lparr>out := out s @ [Ask_yn], asked := asked s + 1\<rparr>)"

text \<open>\<^verbatim>\<open>set_bit(nr, &c->flags)\<close>.\<close>

definition set_bit_flags :: "nat \<Rightarrow> sys \<Rightarrow> sys" where
  "set_bit_flags nr s = s\<lparr>cfs := (cfs s)\<lparr>flags := insert nr (flags (cfs s))\<rparr>\<rparr>"

text \<open>
  \<^verbatim>\<open>printk_ratelimited\<close>: the arrival is counted, and the line is printed when the limiter
  lets this arrival through.
\<close>

definition printk_ratelimited :: "env \<Rightarrow> string \<Rightarrow> sys \<Rightarrow> sys" where
  "printk_ratelimited e t s =
     (if ratelimit e (limited s)
      then s\<lparr>out := out s @ [Printk_err t], limited := limited s + 1\<rparr>
      else s\<lparr>limited := limited s + 1\<rparr>)"

definition bch2_inconsistent_error :: "fs_ptr \<Rightarrow> sys \<Rightarrow> sys" where
  "bch2_inconsistent_error p s = s\<lparr>out := out s @ [Inconsistent_error p]\<rparr>"

definition bch2_fatal_error :: "fs_ptr \<Rightarrow> sys \<Rightarrow> sys" where
  "bch2_fatal_error p s = s\<lparr>out := out s @ [Fatal_error p]\<rparr>"

definition bch2_nonfatal_io_error :: "bch_dev \<Rightarrow> sys \<Rightarrow> sys" where
  "bch2_nonfatal_io_error ca s = s\<lparr>out := out s @ [Nonfatal_io_error ca]\<rparr>"

subsection \<open>Fsck errors, lines 108-179\<close>

text \<open>
  \<^verbatim>\<open>__fsck_err_should_fix\<close> (the prefix \<open>uu_\<close> stands for the two leading underscores).
  With \<^verbatim>\<open>__KERNEL__\<close> the option is converted to \<^verbatim>\<open>bool\<close> and one line is printed;
  otherwise the switch over the three enumerators runs.
\<close>

definition uu_fsck_err_should_fix :: "env \<Rightarrow> string \<Rightarrow> sys \<Rightarrow> bool \<times> sys" where
  "uu_fsck_err_should_fix e msg s =
     (if kernel e then
        (let fix = (fsck_err_opts_val (fix_errors (opts (cfs s))) \<noteq> 0)
         in (fix, bch_err (msg @ '', '' @ (if fix then '''' else ''not '') @ ''fixing'') s))
      else
        (case fix_errors (opts (cfs s)) of
           FSCK_ERR_ASK \<Rightarrow> ask_yn e (printf (msg @ '': fix?'') s)
         | FSCK_ERR_YES \<Rightarrow> (True, bch_err (msg @ '', fixing'') s)
         | FSCK_ERR_NO \<Rightarrow> (False, bch_err msg s)))"

text \<open>The first statement of \<^verbatim>\<open>__fsck_err\<close>, lines 143-148: the value of \<^verbatim>\<open>_fix\<close>.\<close>

definition fsck_err_decide :: "env \<Rightarrow> bool \<Rightarrow> string \<Rightarrow> string \<Rightarrow> sys \<Rightarrow> bool \<times> sys" where
  "fsck_err_decide e can_fix nofix_msg msg s =
     (if can_fix then uu_fsck_err_should_fix e msg s
      else (False, bch_err (msg @ '' ('' @ nofix_msg @ '')'') s))"

text \<open>\<^verbatim>\<open>__fsck_err\<close>, lines 139-160.\<close>

definition uu_fsck_err ::
  "env \<Rightarrow> bool \<Rightarrow> bool \<Rightarrow> string \<Rightarrow> string \<Rightarrow> sys \<Rightarrow> bool ctl \<times> sys" where
  "uu_fsck_err e can_fix can_ignore nofix_msg msg s =
     (let (fix, s1) = fsck_err_decide e can_fix nofix_msg msg s;
          s2 = (if fix then set_bit_flags (BCH_FS_FSCK_FIXED_ERRORS e) s1 else s1)
      in if \<not> fix \<and> \<not> can_ignore
         then (Goto_fsck_err,
               (bch_err ''Unable to continue, halting'' s2)\<lparr>ret := BCH_FSCK_ERRORS_NOT_FIXED\<rparr>)
         else (Value fix, s2))"

text \<open>\<^verbatim>\<open>__fsck_err_on\<close>, lines 162-164.\<close>

definition uu_fsck_err_on ::
  "bool \<Rightarrow> env \<Rightarrow> bool \<Rightarrow> bool \<Rightarrow> string \<Rightarrow> string \<Rightarrow> sys \<Rightarrow> bool ctl \<times> sys" where
  "uu_fsck_err_on cond e can_fix can_ignore nofix_msg msg s =
     (if cond then uu_fsck_err e can_fix can_ignore nofix_msg msg s else (Value False, s))"

text \<open>The named call patterns, lines 166-179.\<close>

definition unfixable_fsck_err_on :: "bool \<Rightarrow> env \<Rightarrow> string \<Rightarrow> sys \<Rightarrow> bool ctl \<times> sys" where
  "unfixable_fsck_err_on cond e msg s =
     uu_fsck_err_on cond e False True ''repair unimplemented'' msg s"

definition need_fsck_err_on :: "bool \<Rightarrow> env \<Rightarrow> string \<Rightarrow> sys \<Rightarrow> bool ctl \<times> sys" where
  "need_fsck_err_on cond e msg s =
     uu_fsck_err_on cond e False True ''run fsck to correct'' msg s"

definition mustfix_fsck_err :: "env \<Rightarrow> string \<Rightarrow> sys \<Rightarrow> bool ctl \<times> sys" where
  "mustfix_fsck_err e msg s = uu_fsck_err e True False ''not fixing'' msg s"

definition mustfix_fsck_err_on :: "bool \<Rightarrow> env \<Rightarrow> string \<Rightarrow> sys \<Rightarrow> bool ctl \<times> sys" where
  "mustfix_fsck_err_on cond e msg s =
     uu_fsck_err_on cond e True False ''not fixing'' msg s"

definition fsck_err_on :: "bool \<Rightarrow> env \<Rightarrow> string \<Rightarrow> sys \<Rightarrow> bool ctl \<times> sys" where
  "fsck_err_on cond e msg s =
     uu_fsck_err_on cond e True True ''not fixing'' msg s"

subsection \<open>Statements in sequence\<close>

text \<open>
  The body of an enclosing function up to its label \<^verbatim>\<open>fsck_err:\<close>, as the list of
  its statements. A statement that falls through hands the state to the next one; after a
  \<^verbatim>\<open>goto fsck_err\<close> or a \<^verbatim>\<open>BUG()\<close> the remaining statements are not executed.
\<close>

fun run_stmts :: "(sys \<Rightarrow> 'a ctl \<times> sys) list \<Rightarrow> sys \<Rightarrow> unit ctl \<times> sys" where
  "run_stmts [] s = (Value (), s)"
| "run_stmts (f # rest) s =
     (case f s of
        (Value v, s') \<Rightarrow> run_stmts rest s'
      | (Goto_fsck_err, s') \<Rightarrow> (Goto_fsck_err, s')
      | (Halted, s') \<Rightarrow> (Halted, s'))"

subsection \<open>Logic errors, lines 25-35\<close>

text \<open>
  Modelled from the spec: \<^verbatim>\<open>BUG()\<close> is defined outside this header. The spec's
  process termination primitive, invoked by the report of a logic bug, never returns: control
  does not come back to the statement after it.
\<close>

definition BUG :: "sys \<Rightarrow> unit ctl \<times> sys" where
  "BUG s = (Halted, s)"

definition bch2_fs_bug :: "string \<Rightarrow> sys \<Rightarrow> unit ctl \<times> sys" where
  "bch2_fs_bug t s = BUG (bch_err t s)"

definition bch2_fs_bug_on :: "bool \<Rightarrow> string \<Rightarrow> sys \<Rightarrow> unit ctl \<times> sys" where
  "bch2_fs_bug_on cond t s = (if cond then bch2_fs_bug t s else (Value (), s))"

subsection \<open>Inconsistency and fatal errors, lines 50-224\<close>

text \<open>
  Statement macros that always fall through return the state only. The first argument of
  the filesystem-level macros is the pointer \<^verbatim>\<open>c\<close> they hand on.
\<close>

definition bch2_fs_inconsistent :: "fs_ptr \<Rightarrow> string \<Rightarrow> sys \<Rightarrow> sys" where
  "bch2_fs_inconsistent c t s = bch2_inconsistent_error c (bch_err t s)"

definition bch2_dev_inconsistent :: "bch_dev \<Rightarrow> string \<Rightarrow> sys \<Rightarrow> sys" where
  "bch2_dev_inconsistent ca t s = bch2_inconsistent_error (fs ca) (bch_err t s)"

definition bch2_fs_fatal_error :: "fs_ptr \<Rightarrow> string \<Rightarrow> sys \<Rightarrow> sys" where
  "bch2_fs_fatal_error c t s = bch2_fatal_error c (bch_err t s)"


definition bch2_dev_fatal_io_error :: "env \<Rightarrow> bch_dev \<Rightarrow> string \<Rightarrow> sys \<Rightarrow> sys" where
  "bch2_dev_fatal_io_error e ca t s =
     bch2_fatal_error (fs ca)
       (printk_ratelimited e (''fatal IO error on '' @ name ca @ '' for '' @ t) s)"

definition bch2_dev_fatal_io_err_on ::
  "bool \<Rightarrow> env \<Rightarrow> bch_dev \<Rightarrow> string \<Rightarrow> sys \<Rightarrow> bool \<times> sys" where
  "bch2_dev_fatal_io_err_on cond e ca t s =
     (cond, if cond then bch2_dev_fatal_io_error e ca t s else s)"

subsection \<open>Nonfatal IO errors, lines 246-261\<close>

definition bch2_dev_nonfatal_io_error :: "env \<Rightarrow> bch_dev \<Rightarrow> string \<Rightarrow> sys \<Rightarrow> sys" where
  "bch2_dev_nonfatal_io_error e ca t s =
     bch2_nonfatal_io_error ca
       (printk_ratelimited e (''IO error on '' @ name ca @ '' for '' @ t) s)"

definition bch2_dev_nonfatal_io_err_on ::
  "bool \<Rightarrow> env \<Rightarrow> bch_dev \<Rightarrow> string \<Rightarrow> sys \<Rightarrow> bool \<times> sys" where
  "bch2_dev_nonfatal_io_err_on cond e ca t s =
     (cond, if cond then bch2_dev_nonfatal_io_error e ca t s else s)"

fun is_printk_err :: "event \<Rightarrow> bool" where
  "is_printk_err (Printk_err t) = True"
| "is_printk_err ev = False"

subsection \<open>The mode table of the specification\<close>

text \<open>
  The four negotiation modes as the specification names them, the triple (fixable,
  ignorable, reason) its table gives each, and the macro of the header that each name
  stands for.
\<close>

datatype fsck_mode =
  Unfixable_but_tolerable | Deferred_to_next_run | Mandatory_fix | Best_effort_fix

fun spec_mode_triple :: "fsck_mode \<Rightarrow> bool \<times> bool \<times> string" where
  "spec_mode_triple Unfixable_but_tolerable = (False, True, ''repair unimplemented'')"
| "spec_mode_triple Deferred_to_next_run = (False, True, ''run fsck to correct'')"
| "spec_mode_triple Mandatory_fix = (True, False, ''not fixing'')"
| "spec_mode_triple Best_effort_fix = (True, True, ''not fixing'')"

fun mode_macro :: "fsck_mode \<Rightarrow> bool \<Rightarrow> env \<Rightarrow> string \<Rightarrow> sys \<Rightarrow> bool ctl \<times> sys" where
  "mode_macro Unfixable_but_tolerable = unfixable_fsck_err_on"
| "mode_macro Deferred_to_next_run = need_fsck_err_on"
| "mode_macro Mandatory_fix = mustfix_fsck_err_on"
| "mode_macro Best_effort_fix = fsck_err_on"

subsection \<open>Concrete inputs\<close>

text \<open>
  An environment whose operator answers no to every prompt and whose rate limiter lets the
  first arrival through and no later one; a fresh state under a given policy; a device.
\<close>

definition ex_env :: "bool \<Rightarrow> env" where
  "ex_env k = \<lparr>kernel = k, answers = (\<lambda>n. False), ratelimit = (\<lambda>n. n < 1),
               BCH_FS_FSCK_FIXED_ERRORS = 7\<rparr>"

definition ex_sys :: "fsck_err_opts \<Rightarrow> sys" where
  "ex_sys p = \<lparr>cfs = \<lparr>opts = \<lparr>fix_errors = p\<rparr>, flags = {}\<rparr>, ret = BCH_FSCK_OK, out = [],
               asked = 0, limited = 0\<rparr>"

definition ex_dev :: bch_dev where
  "ex_dev = \<lparr>name = ''sda'', fs = 1\<rparr>"

section \<open>Properties\<close>

subsection \<open>Auxiliary facts\<close>

text \<open>
  The decision of \<^verbatim>\<open>__fsck_err\<close> leaves the filesystem untouched, and the macro as a
  whole is a three-way case distinction on the decision and on \<^verbatim>\<open>_can_ignore\<close>.
\<close>

lemma cfs_fsck_err_decide: "cfs (snd (fsck_err_decide e can_fix nofix_msg msg s)) = cfs s"
  by (simp add: fsck_err_decide_def uu_fsck_err_should_fix_def bch_err_def printf_def
      ask_yn_def Let_def split: fsck_err_opts.split)

lemma uu_fsck_err_cases:
  "uu_fsck_err e can_fix can_ignore nofix_msg msg s =
     (if fst (fsck_err_decide e can_fix nofix_msg msg s)
      then (Value True,
            set_bit_flags (BCH_FS_FSCK_FIXED_ERRORS e)
              (snd (fsck_err_decide e can_fix nofix_msg msg s)))
      else if can_ignore then (Value False, snd (fsck_err_decide e can_fix nofix_msg msg s))
      else (Goto_fsck_err,
            (bch_err ''Unable to continue, halting''
               (snd (fsck_err_decide e can_fix nofix_msg msg s)))
            \<lparr>ret := BCH_FSCK_ERRORS_NOT_FIXED\<rparr>))"
  by (simp add: uu_fsck_err_def Let_def split: prod.split)

text \<open>
  One report of a nonfatal IO error appends the line, when the limiter lets it through, and
  then the call of \<^verbatim>\<open>bch2_nonfatal_io_error\<close>; the counts over a run of reports follow
  by induction on the run.
\<close>

lemma bch2_dev_nonfatal_io_error_step:
  "out (bch2_dev_nonfatal_io_error e ca t s) =
     out s
     @ (if ratelimit e (limited s)
        then [Printk_err (''IO error on '' @ name ca @ '' for '' @ t)] else [])
     @ [Nonfatal_io_error ca]"
  "limited (bch2_dev_nonfatal_io_error e ca t s) = limited s + 1"
  by (simp_all add: bch2_dev_nonfatal_io_error_def printk_ratelimited_def
      bch2_nonfatal_io_error_def)

lemma count_nonfatal_fold:
  "count_list (out (fold (bch2_dev_nonfatal_io_error e ca) ts s)) (Nonfatal_io_error ca) =
     count_list (out s) (Nonfatal_io_error ca) + length ts"
proof (induction ts arbitrary: s)
  case Nil
  show ?case by simp
next
  case (Cons t ts)
  have "count_list (out (bch2_dev_nonfatal_io_error e ca t s)) (Nonfatal_io_error ca) =
          count_list (out s) (Nonfatal_io_error ca) + 1"
    by (simp add: bch2_dev_nonfatal_io_error_step)
  with Cons.IH [of "bch2_dev_nonfatal_io_error e ca t s"] show ?case
    by simp
qed

lemma filter_upt_first:
  "length (filter P [a ..< a + Suc n]) =
     (if P a then 1 else 0) + length (filter P [Suc a ..< Suc a + n])"
proof -
  have "[a ..< a + Suc n] = a # [Suc a ..< Suc a + n]"
    by (subst upt_rec) simp
  then show ?thesis
    by (simp only: filter.simps list.size split: if_split) simp
qed

lemma count_printk_fold:
  "length (filter is_printk_err (out (fold (bch2_dev_nonfatal_io_error e ca) ts s))) =
     length (filter is_printk_err (out s))
     + length (filter (ratelimit e) [limited s ..< limited s + length ts])"
proof (induction ts arbitrary: s)
  case Nil
  show ?case by simp
next
  case (Cons t ts)
  let ?s1 = "bch2_dev_nonfatal_io_error e ca t s"
  have step: "length (filter is_printk_err (out ?s1)) =
          length (filter is_printk_err (out s)) + (if ratelimit e (limited s) then 1 else 0)"
    by (simp add: bch2_dev_nonfatal_io_error_step)
  have lim: "limited ?s1 = Suc (limited s)"
    by (simp add: bch2_dev_nonfatal_io_error_step)
  have "length (filter is_printk_err (out (fold (bch2_dev_nonfatal_io_error e ca) (t # ts) s)))
        = length (filter is_printk_err (out ?s1))
          + length (filter (ratelimit e) [limited ?s1 ..< limited ?s1 + length ts])"
    using Cons.IH [of ?s1] by simp
  also have "\<dots> = length (filter is_printk_err (out s))
          + ((if ratelimit e (limited s) then 1 else 0)
             + length (filter (ratelimit e) [Suc (limited s) ..< Suc (limited s) + length ts]))"
    by (simp only: step lim add.assoc)
  also have "\<dots> = length (filter is_printk_err (out s))
          + length (filter (ratelimit e) [limited s ..< limited s + Suc (length ts)])"
    by (simp only: filter_upt_first)
  finally show ?case
    by (simp only: list.size) simp
qed

subsection \<open>The fsck negotiation\<close>




text \<open>
  C2. When the decision of a negotiation is not to fix and \<^verbatim>\<open>_can_ignore\<close> is false, the
  macro prints "Unable to continue, halting" as its last line, assigns
  \<open>BCH_FSCK_ERRORS_NOT_FIXED\<close> to \<^verbatim>\<open>ret\<close> and jumps to \<^verbatim>\<open>fsck_err\<close>; the statements
  that follow it in the enclosing function are not executed. In particular
  \<^verbatim>\<open>mustfix_fsck_err\<close> and \<^verbatim>\<open>mustfix_fsck_err_on\<close> with a true condition take this
  path under \<open>FSCK_ERR_NO\<close>, in either build.
\<close>

theorem fsck_err_not_fixed_halts:
  "(\<not> fst (fsck_err_decide e can_fix nofix_msg msg s) \<and> \<not> can_ignore \<longrightarrow>
      uu_fsck_err e can_fix can_ignore nofix_msg msg s =
        (Goto_fsck_err,
         (snd (fsck_err_decide e can_fix nofix_msg msg s))
         \<lparr>ret := BCH_FSCK_ERRORS_NOT_FIXED,
          out := out (snd (fsck_err_decide e can_fix nofix_msg msg s))
                 @ [Bch_err ''Unable to continue, halting'']\<rparr>)
      \<and> run_stmts (uu_fsck_err e can_fix can_ignore nofix_msg msg # rest) s =
        (Goto_fsck_err, snd (uu_fsck_err e can_fix can_ignore nofix_msg msg s)))
   \<and> (fix_errors (opts (cfs s)) = FSCK_ERR_NO \<longrightarrow>
      mustfix_fsck_err e msg s =
        (Goto_fsck_err,
         s\<lparr>ret := BCH_FSCK_ERRORS_NOT_FIXED,
           out := out s @ [Bch_err (if kernel e then msg @ '', not fixing'' else msg),
                           Bch_err ''Unable to continue, halting'']\<rparr>)
      \<and> mustfix_fsck_err_on True e msg s = mustfix_fsck_err e msg s)"
proof -
  have never: "fix_errors (opts (cfs s)) = FSCK_ERR_NO \<Longrightarrow>
      fsck_err_decide e True ''not fixing'' msg s =
        (False, bch_err (if kernel e then msg @ '', not fixing'' else msg) s)"
    by (simp add: fsck_err_decide_def uu_fsck_err_should_fix_def)
  show ?thesis
    using never
    by (simp add: uu_fsck_err_cases mustfix_fsck_err_def mustfix_fsck_err_on_def
        uu_fsck_err_on_def bch_err_def)
qed

text \<open>
  The halting theorem at concrete inputs: \<^verbatim>\<open>mustfix_fsck_err\<close> under \<open>FSCK_ERR_NO\<close>,
  followed by a second check that is never reached.
\<close>

theorem fsck_err_not_fixed_halts_witness:
  "\<not> fst (fsck_err_decide (ex_env False) True ''not fixing'' ''bad key'' (ex_sys FSCK_ERR_NO))
   \<and> \<not> False
   \<and> fix_errors (opts (cfs (ex_sys FSCK_ERR_NO))) = FSCK_ERR_NO
   \<and> uu_fsck_err (ex_env False) True False ''not fixing'' ''bad key'' (ex_sys FSCK_ERR_NO) =
       (Goto_fsck_err,
        (ex_sys FSCK_ERR_NO)\<lparr>ret := 1,
          out := [Bch_err ''bad key'', Bch_err ''Unable to continue, halting'']\<rparr>)
   \<and> run_stmts [uu_fsck_err (ex_env False) True False ''not fixing'' ''bad key'',
                 fsck_err_on True (ex_env False) ''bad inode'']
        (ex_sys FSCK_ERR_NO) =
       (Goto_fsck_err,
        (ex_sys FSCK_ERR_NO)\<lparr>ret := 1,
          out := [Bch_err ''bad key'', Bch_err ''Unable to continue, halting'']\<rparr>)
   \<and> mustfix_fsck_err (ex_env True) ''bad key'' (ex_sys FSCK_ERR_NO) =
       (Goto_fsck_err,
        (ex_sys FSCK_ERR_NO)\<lparr>ret := 1,
          out := [Bch_err ''bad key, not fixing'', Bch_err ''Unable to continue, halting'']\<rparr>)"
proof -
  have d: "fsck_err_decide (ex_env False) True ''not fixing'' ''bad key'' (ex_sys FSCK_ERR_NO)
           = (False, (ex_sys FSCK_ERR_NO)\<lparr>out := [Bch_err ''bad key'']\<rparr>)"
    by (simp add: fsck_err_decide_def uu_fsck_err_should_fix_def bch_err_def ex_env_def
        ex_sys_def)
  have p: "fix_errors (opts (cfs (ex_sys FSCK_ERR_NO))) = FSCK_ERR_NO"
    by (simp add: ex_sys_def)
  have k: "kernel (ex_env True)" "out (ex_sys FSCK_ERR_NO) = []"
    by (simp_all add: ex_env_def ex_sys_def)
  show ?thesis
    using d p k
      fsck_err_not_fixed_halts [of "ex_env False" True "''not fixing''" "''bad key''"
        "ex_sys FSCK_ERR_NO" False "[fsck_err_on True (ex_env False) ''bad inode'']"]
      fsck_err_not_fixed_halts [of "ex_env True" True "''not fixing''" "''bad key''"
        "ex_sys FSCK_ERR_NO" False "[]"]
    by (simp add: BCH_FSCK_ERRORS_NOT_FIXED_def)
qed

text \<open>
  C3. A negotiation with a true condition and \<^verbatim>\<open>_can_fix\<close> false never decides to fix,
  whatever the policy and the build: it prints the message followed by the reason in
  parentheses and evaluates to false when \<^verbatim>\<open>_can_ignore\<close> is true (it halts otherwise).
  \<^verbatim>\<open>unfixable_fsck_err_on\<close> prints the message followed by " (repair unimplemented)",
  evaluates to false and does not jump.
\<close>

theorem fsck_err_unfixable:
  "uu_fsck_err_on True e False can_ignore nofix_msg msg s =
     (if can_ignore
      then (Value False, s\<lparr>out := out s @ [Bch_err (msg @ '' ('' @ nofix_msg @ '')'')]\<rparr>)
      else (Goto_fsck_err,
            s\<lparr>out := out s @ [Bch_err (msg @ '' ('' @ nofix_msg @ '')''),
                               Bch_err ''Unable to continue, halting''],
              ret := BCH_FSCK_ERRORS_NOT_FIXED\<rparr>))
   \<and> unfixable_fsck_err_on True e msg s =
       (Value False, s\<lparr>out := out s @ [Bch_err (msg @ '' (repair unimplemented)'')]\<rparr>)"
  by (simp add: unfixable_fsck_err_on_def uu_fsck_err_on_def uu_fsck_err_def
      fsck_err_decide_def bch_err_def)

text \<open>
  C4. Each of the four named modes is \<^verbatim>\<open>__fsck_err_on\<close> applied to the triple the
  specification's table gives for it, and \<^verbatim>\<open>mustfix_fsck_err\<close> is \<^verbatim>\<open>__fsck_err\<close> applied
  to the triple of the mandatory mode. The behaviour of a mode follows from its triple: with
  a true condition it evaluates to true when the mode is fixable and the policy decides to
  fix, to false when it does not fix and the mode is ignorable, and it halts otherwise.
\<close>

theorem fsck_modes_table:
  "mode_macro m cond e msg s =
     (case spec_mode_triple m of
        (fixable, ignorable, reason) \<Rightarrow> uu_fsck_err_on cond e fixable ignorable reason msg s)
   \<and> mustfix_fsck_err e msg s =
       (case spec_mode_triple Mandatory_fix of
          (fixable, ignorable, reason) \<Rightarrow> uu_fsck_err e fixable ignorable reason msg s)
   \<and> fst (mode_macro m True e msg s) =
       (case spec_mode_triple m of
          (fixable, ignorable, reason) \<Rightarrow>
            if fixable \<and> fst (uu_fsck_err_should_fix e msg s) then Value True
            else if ignorable then Value False else Goto_fsck_err)"
  by (cases m) (simp_all add: unfixable_fsck_err_on_def need_fsck_err_on_def
      mustfix_fsck_err_on_def fsck_err_on_def mustfix_fsck_err_def uu_fsck_err_on_def
      uu_fsck_err_cases fsck_err_decide_def)

text \<open>
  C5. After a negotiation the flag word is the one before it with bit
  \<open>BCH_FS_FSCK_FIXED_ERRORS\<close> added when the negotiation evaluated to true, and the one before
  it unchanged otherwise; the negotiation evaluates to true exactly when its decision was to
  fix. With \<^verbatim>\<open>_can_fix\<close> false it never evaluates to true and the flags are unchanged. The
  same holds for the condition-guarded form.
\<close>

theorem fsck_fixed_errors_iff_fixed:
  "flags (cfs (snd (uu_fsck_err e can_fix can_ignore nofix_msg msg s))) =
     (if fst (uu_fsck_err e can_fix can_ignore nofix_msg msg s) = Value True
      then insert (BCH_FS_FSCK_FIXED_ERRORS e) (flags (cfs s)) else flags (cfs s))
   \<and> (fst (uu_fsck_err e can_fix can_ignore nofix_msg msg s) = Value True) =
       fst (fsck_err_decide e can_fix nofix_msg msg s)
   \<and> fst (uu_fsck_err e False can_ignore nofix_msg msg s) \<noteq> Value True
   \<and> flags (cfs (snd (uu_fsck_err e False can_ignore nofix_msg msg s))) = flags (cfs s)
   \<and> flags (cfs (snd (uu_fsck_err_on cond e can_fix can_ignore nofix_msg msg s))) =
     (if fst (uu_fsck_err_on cond e can_fix can_ignore nofix_msg msg s) = Value True
      then insert (BCH_FS_FSCK_FIXED_ERRORS e) (flags (cfs s)) else flags (cfs s))"
proof -
  have a: "fst (fsck_err_decide e False nofix_msg msg s) = False"
    by (simp add: fsck_err_decide_def)
  have b: "flags (cfs (snd (uu_fsck_err e cf can_ignore nofix_msg msg s))) =
     (if fst (uu_fsck_err e cf can_ignore nofix_msg msg s) = Value True
      then insert (BCH_FS_FSCK_FIXED_ERRORS e) (flags (cfs s)) else flags (cfs s))" for cf
    by (simp add: uu_fsck_err_cases cfs_fsck_err_decide set_bit_flags_def bch_err_def)
  have c: "(fst (uu_fsck_err e cf can_ignore nofix_msg msg s) = Value True) =
       fst (fsck_err_decide e cf nofix_msg msg s)" for cf
    by (simp add: uu_fsck_err_cases)
  show ?thesis
    using a b c by (simp add: uu_fsck_err_on_def)
qed

text \<open>
  C10. \<^verbatim>\<open>__fsck_err\<close> evaluates to true exactly when the decision was to fix; when it
  was not, the macro evaluates to false if \<^verbatim>\<open>_can_ignore\<close> holds and jumps to
  \<^verbatim>\<open>fsck_err\<close>, yielding no value, otherwise. The condition-guarded form evaluates to true
  exactly when the condition holds and the decision was to fix, and every guarded macro
  evaluates to false when its condition is false.
\<close>

theorem fsck_err_value_iff_fixed:
  "fst (uu_fsck_err e can_fix can_ignore nofix_msg msg s) =
     (if fst (fsck_err_decide e can_fix nofix_msg msg s) then Value True
      else if can_ignore then Value False else Goto_fsck_err)
   \<and> (fst (uu_fsck_err_on cond e can_fix can_ignore nofix_msg msg s) = Value True) =
       (cond \<and> fst (fsck_err_decide e can_fix nofix_msg msg s))
   \<and> fst (mustfix_fsck_err e msg s) =
       (if fst (fsck_err_decide e True ''not fixing'' msg s) then Value True else Goto_fsck_err)
   \<and> fst (uu_fsck_err_on False e can_fix can_ignore nofix_msg msg s) = Value False
   \<and> fst (unfixable_fsck_err_on False e msg s) = Value False
   \<and> fst (need_fsck_err_on False e msg s) = Value False
   \<and> fst (mustfix_fsck_err_on False e msg s) = Value False
   \<and> fst (fsck_err_on False e msg s) = Value False"
  by (simp add: uu_fsck_err_cases uu_fsck_err_on_def mustfix_fsck_err_def
      unfixable_fsck_err_on_def need_fsck_err_on_def mustfix_fsck_err_on_def fsck_err_on_def)

text \<open>
  C9. A condition-guarded negotiation whose condition is false does nothing, for every
  mode, policy and build: it evaluates to false, and the state after it (trace, flags,
  \<^verbatim>\<open>ret\<close>, answers read) is the state before it, so no message was printed, no flag set
  and no jump to \<^verbatim>\<open>fsck_err\<close> taken.
\<close>

theorem fsck_err_on_false_noop:
  "uu_fsck_err_on False e can_fix can_ignore nofix_msg msg s = (Value False, s)
   \<and> unfixable_fsck_err_on False e msg s = (Value False, s)
   \<and> need_fsck_err_on False e msg s = (Value False, s)
   \<and> mustfix_fsck_err_on False e msg s = (Value False, s)
   \<and> fsck_err_on False e msg s = (Value False, s)"
  by (simp add: uu_fsck_err_on_def unfixable_fsck_err_on_def need_fsck_err_on_def
      mustfix_fsck_err_on_def fsck_err_on_def)

subsection \<open>Escalation\<close>




text \<open>
  C7. \<^verbatim>\<open>bch2_fs_bug\<close>, and \<^verbatim>\<open>bch2_fs_bug_on\<close> with a true condition, print exactly one
  message and then halt: the trace grows by that one line, nothing else of the state
  changes, and whatever statements follow in the enclosing function are not executed.
\<close>

theorem fs_bug_halts:
  "bch2_fs_bug t s = (Halted, s\<lparr>out := out s @ [Bch_err t]\<rparr>)
   \<and> bch2_fs_bug_on True t s = (Halted, s\<lparr>out := out s @ [Bch_err t]\<rparr>)
   \<and> run_stmts (bch2_fs_bug t # rest) s = (Halted, s\<lparr>out := out s @ [Bch_err t]\<rparr>)
   \<and> run_stmts (bch2_fs_bug_on True t # rest) s = (Halted, s\<lparr>out := out s @ [Bch_err t]\<rparr>)"
  by (simp add: bch2_fs_bug_def bch2_fs_bug_on_def BUG_def bch_err_def)

text \<open>
  C8. Over any run of reports of \<^verbatim>\<open>bch2_dev_nonfatal_io_error\<close> on one device, the number
  of calls of \<^verbatim>\<open>bch2_nonfatal_io_error\<close> on that device grows by exactly the number of
  reports, whatever the rate limiter decides, while the number of lines printed grows only
  by the number of arrivals the limiter lets through. In particular \<open>N\<close> identical reports
  make exactly \<open>N\<close> calls.
\<close>

theorem nonfatal_io_error_every_time:
  "count_list (out (fold (bch2_dev_nonfatal_io_error e ca) ts s)) (Nonfatal_io_error ca) =
     count_list (out s) (Nonfatal_io_error ca) + length ts
   \<and> length (filter is_printk_err (out (fold (bch2_dev_nonfatal_io_error e ca) ts s))) =
     length (filter is_printk_err (out s))
     + length (filter (ratelimit e) [limited s ..< limited s + length ts])
   \<and> count_list (out ((bch2_dev_nonfatal_io_error e ca t ^^ N) s)) (Nonfatal_io_error ca) =
     count_list (out s) (Nonfatal_io_error ca) + N"
proof -
  have "(bch2_dev_nonfatal_io_error e ca t ^^ N) s =
          fold (bch2_dev_nonfatal_io_error e ca) (replicate N t) s"
    by (induction N arbitrary: s) (simp_all add: funpow_swap1)
  then show ?thesis
    using count_nonfatal_fold [of e ca ts s] count_printk_fold [of e ca ts s]
      count_nonfatal_fold [of e ca "replicate N t" s]
    by simp
qed

text \<open>
  Three identical reports under a limiter that lets only the first arrival through: one
  line, three calls.
\<close>

lemma nonfatal_io_error_suppressed_example:
  "out (fold (bch2_dev_nonfatal_io_error (ex_env True) ex_dev)
          [''read'', ''read'', ''read''] (ex_sys FSCK_ERR_NO)) =
     [Printk_err ''IO error on sda for read'', Nonfatal_io_error ex_dev,
      Nonfatal_io_error ex_dev, Nonfatal_io_error ex_dev]"
  by (simp add: bch2_dev_nonfatal_io_error_def printk_ratelimited_def
      bch2_nonfatal_io_error_def ex_env_def ex_sys_def ex_dev_def)

end
